theory Spec2Isabelle
  imports Main "HOL-Library.Word" "HOL-Library.Sublist"
begin

section \<open>The function-call expression node (vec/exprs/vectorized_fn_call.cpp)\<close>

text \<open>
  A shallow embedding of \<^verbatim>\<open>VectorizedFnCall\<close>: \<^verbatim>\<open>prepare\<close>, \<^verbatim>\<open>_do_execute\<close> with its two
  entry points, \<^verbatim>\<open>estimate_memory\<close> and \<^verbatim>\<open>equals\<close>. A member \<^verbatim>\<open>_x\<close> of the class is the
  record field \<open>m_x\<close>. Everything the file calls but does not define (the base class
  \<^verbatim>\<open>VExpr\<close>, the block, the function factories, the configuration) is a parameter of the
  model, collected in the records \<open>prepare_env\<close> and \<open>execute_env\<close>, so that the theorems hold
  whatever those collaborators do.
\<close>

subsection \<open>Status\<close>

datatype ErrorCode = INTERNAL_ERROR | OTHER_ERROR int

datatype Status = OK | Error ErrorCode string

abbreviation InternalError :: "string \<Rightarrow> Status" where
  "InternalError msg \<equiv> Error INTERNAL_ERROR msg"

fun ok :: "Status \<Rightarrow> bool" where
  "ok OK = True"
| "ok (Error c msg) = False"

subsection \<open>Data types, columns, function descriptors\<close>

text \<open>
  Of the primitive types only \<^verbatim>\<open>TYPE_AGG_STATE\<close> is named in the file; the others are
  numbered.
\<close>

datatype PrimitiveType = TYPE_AGG_STATE | TYPE_OTHER nat

text \<open>
  A data type is what the file asks of it. \<^verbatim>\<open>size_t\<close> is 64 bits wide. The nested
  function is read only from a return type whose primitive type is \<^verbatim>\<open>TYPE_AGG_STATE\<close>.
\<close>

record DataType =
  get_name :: string
  get_family_name :: string
  is_nullable :: bool
  get_primitive_type :: PrimitiveType
  have_maximum_size_of_value :: bool
  get_size_of_value_in_memory :: "64 word"
  get_nested_function :: string

text \<open>A column is identified by its address; \<open>None\<close> is \<^verbatim>\<open>nullptr\<close>.\<close>

type_synonym ColumnPtr = "nat option"

type_synonym ColumnWithTypeAndName = "ColumnPtr \<times> DataType \<times> string"

type_synonym ColumnsWithTypeAndName = "ColumnWithTypeAndName list"

type_synonym Block = "ColumnWithTypeAndName list"

text \<open>
  The kinds of function binary. The file names \<^verbatim>\<open>RPC\<close>, \<^verbatim>\<open>JAVA_UDF\<close> and \<^verbatim>\<open>AGG_STATE\<close>;
  every other kind takes the last branch of the dispatch, the lookup in the native registry.
\<close>

datatype TFunctionBinaryType = BUILTIN | HIVE | NATIVE | IR | RPC | JAVA_UDF | AGG_STATE

text \<open>
  \<open>function_name\<close> is \<^verbatim>\<open>name.function_name\<close>; \<open>dict_function\<close> is \<open>None\<close> when
  \<^verbatim>\<open>__isset.dict_function\<close> is false.
\<close>

record TFunction =
  function_name :: string
  binary_type :: TFunctionBinaryType
  is_udtf_function :: bool
  signature :: string
  dict_function :: "string option"

subsection \<open>Expression nodes\<close>

text \<open>
  The members of a call node that the file reads or writes. \<open>'f\<close> is the type of bound
  executables (\<^verbatim>\<open>FunctionBasePtr\<close>); \<open>m_function = None\<close> is the null pointer.
\<close>

record 'f fn_call =
  m_fn :: TFunction
  m_data_type :: DataType
  m_expr_name :: string
  m_function :: "'f option"
  m_function_name :: string
  m_prepare_finished :: bool
  m_open_finished :: bool
  m_fn_context_index :: int
  m_constant_col :: ColumnPtr

text \<open>
  A node of another class is known by the interface the file uses: whether it is a
  literal and then its column, its type and its name. Its own \<^verbatim>\<open>execute\<close>, \<^verbatim>\<open>equals\<close> and
  \<^verbatim>\<open>estimate_memory\<close> are parameters of the functions below; \<open>f_ident\<close> tells such nodes
  apart.
\<close>

record foreign_expr =
  f_ident :: nat
  f_is_literal :: bool
  f_column_ptr :: ColumnPtr
  f_data_type :: DataType
  f_expr_name :: string

datatype 'f VExpr =
    VectorizedFnCall "'f fn_call" "'f VExpr list"
  | OtherExpr foreign_expr

text \<open>
  The accessors that \<^verbatim>\<open>prepare\<close> calls on a child. \<^verbatim>\<open>expr_name\<close> of a call node is lines 247
  to 249. A call node is no \<^verbatim>\<open>VLiteral\<close> (the cast of line 65 is applied to literals only), and
  its type is the member \<^verbatim>\<open>_data_type\<close>.
\<close>

fun is_literal :: "'f VExpr \<Rightarrow> bool" where
  "is_literal (VectorizedFnCall n cs) = False"
| "is_literal (OtherExpr e) = f_is_literal e"

fun get_column_ptr :: "'f VExpr \<Rightarrow> ColumnPtr" where
  "get_column_ptr (VectorizedFnCall n cs) = None"
| "get_column_ptr (OtherExpr e) = f_column_ptr e"

fun data_type :: "'f VExpr \<Rightarrow> DataType" where
  "data_type (VectorizedFnCall n cs) = m_data_type n"
| "data_type (OtherExpr e) = f_data_type e"

fun expr_name :: "'f VExpr \<Rightarrow> string" where
  "expr_name (VectorizedFnCall n cs) = m_expr_name n"
| "expr_name (OtherExpr e) = f_expr_name e"

subsection \<open>The execution context\<close>

record FunctionContext =
  fc_dict_function :: "string option"

record VExprContext =
  fn_contexts :: "FunctionContext list"

text \<open>
  Modelled from the spec: \<^verbatim>\<open>FunctionContext::set_dict_function\<close>, reached through
  \<^verbatim>\<open>context->fn_context(index)\<close> (declared outside this file). The spec says that the
  dictionary-lookup hook is installed into the per-slot runtime state; a slot outside the
  table leaves the table as it is.
\<close>

definition set_dict_function :: "int \<Rightarrow> string \<Rightarrow> VExprContext \<Rightarrow> VExprContext" where
  "set_dict_function idx d ctx =
     (if 0 \<le> idx \<and> nat idx < length (fn_contexts ctx)
      then ctx\<lparr>fn_contexts := (fn_contexts ctx)
             [nat idx := (fn_contexts ctx ! nat idx)\<lparr>fc_dict_function := Some d\<rparr>]\<rparr>
      else ctx)"

subsection \<open>prepare\<close>

text \<open>
  What \<^verbatim>\<open>prepare\<close> takes from outside the file: the base class's \<^verbatim>\<open>VExpr::prepare\<close> (it
  prepares the children, so it returns them with the context) and \<^verbatim>\<open>get_child_names\<close>, the
  configuration flag, the five ways to construct an executable (each may return the null
  pointer), the type \<^verbatim>\<open>DataTypeUInt8\<close>, the two values read from the runtime state, and
  \<^verbatim>\<open>VExpr::register_function_context\<close>, which yields the context slot.
\<close>

record 'f prepare_env =
  VExpr_prepare :: "'f VExpr list \<Rightarrow> VExprContext \<Rightarrow> Status \<times> 'f VExpr list \<times> VExprContext"
  get_child_names :: "'f VExpr list \<Rightarrow> string"
  enable_java_support :: bool
  FunctionRPC_create :: "TFunction \<Rightarrow> ColumnsWithTypeAndName \<Rightarrow> DataType \<Rightarrow> 'f option"
  FunctionFake_UDTFImpl_build :: "ColumnsWithTypeAndName \<Rightarrow> DataType \<Rightarrow> 'f option"
  DataTypeUInt8 :: DataType
  JavaFunctionCall_create :: "TFunction \<Rightarrow> ColumnsWithTypeAndName \<Rightarrow> DataType \<Rightarrow> 'f option"
  FunctionAggState_create :: "DataType list \<Rightarrow> DataType \<Rightarrow> string \<Rightarrow> 'f option"
  get_function :: "string \<Rightarrow> ColumnsWithTypeAndName \<Rightarrow> DataType \<Rightarrow> bool \<Rightarrow> int \<Rightarrow> 'f option"
  enable_decimal256 :: bool
  be_exec_version :: int
  register_function_context :: "'f VExpr list \<Rightarrow> DataType \<Rightarrow> VExprContext \<Rightarrow> int \<times> VExprContext"

definition AGG_STATE_SUFFIX :: string where
  "AGG_STATE_SUFFIX = ''_state''"

text \<open>
  Modelled from the spec: \<^verbatim>\<open>match_suffix\<close> of common/utils.h. The spec says that the
  function name must carry the reserved suffix, that is, end with it.
\<close>

definition match_suffix :: "string \<Rightarrow> string \<Rightarrow> bool" where
  "match_suffix name suf =
     (length suf \<le> length name \<and> drop (length name - length suf) name = suf)"

text \<open>The loop over the children that fills \<^verbatim>\<open>argument_template\<close>.\<close>

definition template_entry :: "'f VExpr \<Rightarrow> ColumnWithTypeAndName" where
  "template_entry child =
     (if is_literal child then (get_column_ptr child, data_type child, expr_name child)
      else (None, data_type child, expr_name child))"

definition argument_template :: "'f VExpr list \<Rightarrow> ColumnsWithTypeAndName" where
  "argument_template cs = map template_entry cs"

text \<open>
  The dispatch on \<^verbatim>\<open>_fn.binary_type\<close>. \<open>Inl\<close> is a \<^verbatim>\<open>return\<close> from inside the dispatch,
  which leaves \<^verbatim>\<open>_function\<close> as it was; \<open>Inr\<close> is the value assigned to \<^verbatim>\<open>_function\<close>.
\<close>

definition bind_function ::
  "'f prepare_env \<Rightarrow> TFunction \<Rightarrow> DataType \<Rightarrow> ColumnsWithTypeAndName \<Rightarrow> Status + 'f option" where
  "bind_function env fn dt tmpl =
     (if binary_type fn = RPC then Inr (FunctionRPC_create env fn tmpl dt)
      else if binary_type fn = JAVA_UDF then
        (if enable_java_support env then
           (if is_udtf_function fn
            then Inr (FunctionFake_UDTFImpl_build env tmpl (DataTypeUInt8 env))
            else Inr (JavaFunctionCall_create env fn tmpl dt))
         else Inl (InternalError
           (''Java UDF is not enabled, you can change be config enable_java_support to true '' @
            ''and restart be.'')))
      else if binary_type fn = AGG_STATE then
        (let argument_types = map (\<lambda>column. fst (snd column)) tmpl in
         if match_suffix (function_name fn) AGG_STATE_SUFFIX then
           (if is_nullable dt
            then Inl (InternalError ''State function's return type must be not nullable'')
            else if get_primitive_type dt \<noteq> TYPE_AGG_STATE
            then Inl (InternalError
              (''State function's return type must be agg_state but get '' @ get_family_name dt))
            else Inr (FunctionAggState_create env argument_types dt (get_nested_function dt)))
         else Inl (InternalError
           (''Function '' @ signature fn @ '' is not endwith '' @ [CHR 0x27] @ ''_state'' @
            [CHR 0x27])))
      else Inr (get_function env (function_name fn) tmpl dt
                  (enable_decimal256 env) (be_exec_version env)))"

text \<open>The name that \<^verbatim>\<open>prepare\<close> gives the node (\<^verbatim>\<open>fmt::format\<close> fills each \<^verbatim>\<open>{}\<close>).\<close>

definition display_name :: "'f prepare_env \<Rightarrow> 'f fn_call \<Rightarrow> 'f VExpr list \<Rightarrow> string" where
  "display_name env n cs =
     ''VectorizedFnCall['' @ function_name (m_fn n) @ ''](arguments='' @
     get_child_names env cs @ '',return='' @ get_name (m_data_type n) @ '')''"

definition could_not_find :: "'f prepare_env \<Rightarrow> 'f fn_call \<Rightarrow> 'f VExpr list \<Rightarrow> string" where
  "could_not_find env n cs =
     ''Could not find function '' @ function_name (m_fn n) @ '', arg '' @
     get_child_names env cs @ '' return '' @ get_name (m_data_type n) @ '' ''"

text \<open>
  Modelled from the spec: the macro \<^verbatim>\<open>RETURN_IF_ERROR_OR_PREPARED\<close> of line 59 (defined
  outside this file). The spec says that re-entry when the node is already prepared is a
  no-op success, and that the node is marked prepared as the last step of a successful
  \<^verbatim>\<open>prepare\<close>, which in the file is \<^verbatim>\<open>_prepare_finished = true\<close>. Otherwise the macro runs the
  base class's \<^verbatim>\<open>prepare\<close> and returns its status when that is an error. These are the
  first two branches below; the rest is lines 60 to 132.

  \<^verbatim>\<open>prepare\<close> works on a call node with members \<open>n\<close> and children \<open>cs\<close>; it returns the
  status, the node, the children and the context as the call leaves them.
\<close>

definition prepare ::
  "'f prepare_env \<Rightarrow> 'f fn_call \<Rightarrow> 'f VExpr list \<Rightarrow> VExprContext
     \<Rightarrow> Status \<times> 'f fn_call \<times> 'f VExpr list \<times> VExprContext" where
  "prepare env n cs ctx =
     (if m_prepare_finished n then (OK, n, cs, ctx)
      else case VExpr_prepare env cs ctx of (st, cs1, ctx1) \<Rightarrow>
        if \<not> ok st then (st, n, cs1, ctx1)
        else
          let tmpl = argument_template cs1;
              n1 = n\<lparr>m_expr_name := display_name env n cs1\<rparr>
          in case bind_function env (m_fn n1) (m_data_type n1) tmpl of
               Inl err \<Rightarrow> (err, n1, cs1, ctx1)
             | Inr f \<Rightarrow>
                 let n2 = n1\<lparr>m_function := f\<rparr> in
                 if f = None then (InternalError (could_not_find env n2 cs1), n2, cs1, ctx1)
                 else
                   case register_function_context env cs1 (m_data_type n2) ctx1 of
                     (idx, ctx2) \<Rightarrow>
                       let n3 = n2\<lparr>m_fn_context_index := idx,
                                   m_function_name := function_name (m_fn n2),
                                   m_prepare_finished := True\<rparr>;
                           ctx3 = (case dict_function (m_fn n3) of
                                     None \<Rightarrow> ctx2
                                   | Some d \<Rightarrow> set_dict_function (m_fn_context_index n3) d ctx2)
                       in (OK, n3, cs1, ctx3))"

subsection \<open>execute\<close>

text \<open>The context and the block that a call works on and leaves changed.\<close>

record exec_state =
  the_context :: VExprContext
  the_block :: Block

text \<open>
  Modelled from the spec: \<^verbatim>\<open>Block::columns()\<close> and \<^verbatim>\<open>Block::insert\<close> (declared outside the file).
  The spec says that a block is an ordered sequence of named, typed columns that supports
  appending a column: the count is the length of the list, and \<^verbatim>\<open>insert\<close> appends. Line 197
  stores the count in a \<^verbatim>\<open>uint32_t\<close>, and line 212 stores that in the \<^verbatim>\<open>int\<close> the caller
  reads, which is \<open>sint\<close> of the 32-bit value.
\<close>

definition columns :: "Block \<Rightarrow> 32 word" where
  "columns b = of_nat (length b)"

text \<open>\<^verbatim>\<open>std::vector::resize\<close>: the first \<open>k\<close> elements stay, new ones are zero.\<close>

definition resize :: "nat \<Rightarrow> int list \<Rightarrow> int list" where
  "resize k args = take k args @ replicate (k - length args) 0"

text \<open>
  What \<^verbatim>\<open>_do_execute\<close> takes from outside the file. \<open>fast_execute\<close> is the base class's
  hook: whether it took the fast path, and the state and result index it leaves.
  \<open>must_in_slow_path\<close> is the status of the fault-injection block of lines 168 to 185,
  \<open>OK\<close> when the debug point is off or lets the call through (the second debug point only
  sleeps). \<open>foreign_execute\<close> is \<^verbatim>\<open>execute\<close> of a child of another class. \<open>check_constant\<close>
  is the base class's check of the arguments, \<open>function_execute\<close> the bound executable's
  \<^verbatim>\<open>execute\<close> with the context slot, the block, the arguments, the result index and the row
  count, and \<open>block_rows\<close> and \<open>check_type_and_column\<close> are the block's methods. The
  \<^verbatim>\<open>DCHECK\<close> of line 186 is an assertion of debug builds and has no branch in the model.
\<close>

record 'f execute_env =
  fast_execute :: "'f fn_call \<Rightarrow> 'f VExpr list \<Rightarrow> exec_state \<Rightarrow> int \<Rightarrow> bool \<times> exec_state \<times> int"
  must_in_slow_path :: "'f fn_call \<Rightarrow> 'f VExpr list \<Rightarrow> Status"
  foreign_execute :: "foreign_expr \<Rightarrow> exec_state \<Rightarrow> int \<Rightarrow> Status \<times> exec_state \<times> int"
  check_constant :: "'f fn_call \<Rightarrow> 'f VExpr list \<Rightarrow> Block \<Rightarrow> int list \<Rightarrow> Status"
  function_execute ::
    "'f \<Rightarrow> VExprContext \<Rightarrow> int \<Rightarrow> Block \<Rightarrow> int list \<Rightarrow> 32 word \<Rightarrow> nat \<Rightarrow> Status \<times> exec_state"
  block_rows :: "Block \<Rightarrow> nat"
  check_type_and_column :: "Block \<Rightarrow> Status"

text \<open>
  Modelled from the spec: \<^verbatim>\<open>is_const_and_have_executed\<close> of the base class. The spec says
  that the node was proven constant and already evaluated during open; the model reads
  that from the cached constant column being there.
\<close>

definition is_const_and_have_executed :: "'f fn_call \<Rightarrow> bool" where
  "is_const_and_have_executed n = (m_constant_col n \<noteq> None)"

text \<open>
  Modelled from the spec: \<^verbatim>\<open>get_result_from_const\<close> of the base class. The spec says that
  it returns the previously materialized constant column; as everywhere in this file a
  column is returned as a column of the block and its index, so the cached column is
  appended under the node's type and the given name, and its index is the result.
\<close>

definition get_result_from_const ::
  "'f fn_call \<Rightarrow> exec_state \<Rightarrow> string \<Rightarrow> Status \<times> exec_state \<times> int" where
  "get_result_from_const n st name =
     (OK, st\<lparr>the_block := the_block st @ [(m_constant_col n, m_data_type n, name)]\<rparr>,
      sint (columns (the_block st)))"

text \<open>
  Lines 195 to 214, after the children ran: the check of the arguments, the new column, the
  call of the bound executable, the result index, the check of the block. \<open>None\<close> is the
  call through a null \<^verbatim>\<open>_function\<close>, which has no defined result.
\<close>

definition call_function ::
  "'f execute_env \<Rightarrow> 'f fn_call \<Rightarrow> 'f VExpr list \<Rightarrow> exec_state \<Rightarrow> int \<Rightarrow> int list
     \<Rightarrow> (Status \<times> exec_state \<times> int \<times> int list) option" where
  "call_function env n cs st rid args =
     (let s1 = check_constant env n cs (the_block st) args in
      if \<not> ok s1 then Some (s1, st, rid, args)
      else
        let num_columns_without_result = columns (the_block st);
            st1 = st\<lparr>the_block := the_block st @ [(None, m_data_type n, m_expr_name n)]\<rparr>
        in case m_function n of
             None \<Rightarrow> None
           | Some f \<Rightarrow>
               (case function_execute env f (the_context st1) (m_fn_context_index n)
                       (the_block st1) args num_columns_without_result
                       (block_rows env (the_block st1)) of
                  (s2, st2) \<Rightarrow>
                    if \<not> ok s2 then Some (s2, st2, rid, args)
                    else
                      let rid1 = sint num_columns_without_result;
                          s3 = check_type_and_column env (the_block st2)
                      in if \<not> ok s3 then Some (s3, st2, rid1, args)
                         else Some (OK, st2, rid1, args)))"

text \<open>
  \<^verbatim>\<open>_do_execute\<close> on a call node with members \<open>n\<close> and children \<open>cs\<close>, \<^verbatim>\<open>execute\<close> on any node,
  and the loop of lines 189 to 193 over the children that are left, \<open>i\<close> being the index of
  the first of them. The result index and the argument list go in and come out, as the
  pointer and the reference do.
\<close>

fun do_execute ::
    "'f execute_env \<Rightarrow> 'f fn_call \<Rightarrow> 'f VExpr list \<Rightarrow> exec_state \<Rightarrow> int \<Rightarrow> int list
       \<Rightarrow> (Status \<times> exec_state \<times> int \<times> int list) option"
  and execute ::
    "'f execute_env \<Rightarrow> 'f VExpr \<Rightarrow> exec_state \<Rightarrow> int \<Rightarrow> (Status \<times> exec_state \<times> int) option"
  and execute_children ::
    "'f execute_env \<Rightarrow> 'f VExpr list \<Rightarrow> nat \<Rightarrow> exec_state \<Rightarrow> int list
       \<Rightarrow> (Status \<times> exec_state \<times> int list) option"
where
  "do_execute env n cs st rid args =
     (if is_const_and_have_executed n then
        (case get_result_from_const n st (m_expr_name n) of
           (s, st1, rid1) \<Rightarrow> Some (s, st1, rid1, args))
      else case fast_execute env n cs st rid of
        (fast, st1, rid1) \<Rightarrow>
          if fast then Some (OK, st1, rid1, args)
          else
            let s1 = must_in_slow_path env n cs in
            if \<not> ok s1 then Some (s1, st1, rid1, args)
            else case execute_children env cs 0 st1 (resize (length cs) args) of
                   None \<Rightarrow> None
                 | Some (s2, st2, args2) \<Rightarrow>
                     if \<not> ok s2 then Some (s2, st2, rid1, args2)
                     else call_function env n cs st2 rid1 args2)"
| "execute env (VectorizedFnCall n cs) st rid =
     (case do_execute env n cs st rid [] of
        None \<Rightarrow> None
      | Some (s, st1, rid1, arguments) \<Rightarrow> Some (s, st1, rid1))"
| "execute env (OtherExpr e) st rid = Some (foreign_execute env e st rid)"
| "execute_children env [] i st args = Some (OK, st, args)"
| "execute_children env (c # cs) i st args =
     (case execute env c st (- 1) of
        None \<Rightarrow> None
      | Some (s, st1, column_id) \<Rightarrow>
          if \<not> ok s then Some (s, st1, args)
          else execute_children env cs (Suc i) st1 (args[i := column_id]))"

definition execute_runtime_filter ::
  "'f execute_env \<Rightarrow> 'f fn_call \<Rightarrow> 'f VExpr list \<Rightarrow> exec_state \<Rightarrow> int \<Rightarrow> int list
     \<Rightarrow> (Status \<times> exec_state \<times> int \<times> int list) option" where
  "execute_runtime_filter env n cs st rid args = do_execute env n cs st rid args"

subsection \<open>estimate_memory\<close>

text \<open>
  \<^verbatim>\<open>estimate_memory\<close> on any node, and its loop over the children with the running
  \<^verbatim>\<open>estimate_size\<close>. All values are \<^verbatim>\<open>size_t\<close>: sums and products wrap around at 64 bits.
  \<open>fe\<close> is \<^verbatim>\<open>estimate_memory\<close> of a node of another class.
\<close>

fun estimate_memory ::
    "(foreign_expr \<Rightarrow> 64 word \<Rightarrow> 64 word) \<Rightarrow> 'f VExpr \<Rightarrow> 64 word \<Rightarrow> 64 word"
  and estimate_children ::
    "(foreign_expr \<Rightarrow> 64 word \<Rightarrow> 64 word) \<Rightarrow> 'f VExpr list \<Rightarrow> 64 word \<Rightarrow> 64 word \<Rightarrow> 64 word"
where
  "estimate_memory fe (VectorizedFnCall n cs) rows =
     (if is_const_and_have_executed n then 0
      else
        let estimate_size = estimate_children fe cs rows 0 in
        if have_maximum_size_of_value (m_data_type n)
        then estimate_size + rows * get_size_of_value_in_memory (m_data_type n)
        else estimate_size + rows * 512)"
| "estimate_memory fe (OtherExpr e) rows = fe e rows"
| "estimate_children fe [] rows estimate_size = estimate_size"
| "estimate_children fe (child # cs) rows estimate_size =
     estimate_children fe cs rows (estimate_size + estimate_memory fe child rows)"

subsection \<open>equals\<close>

text \<open>
  \<^verbatim>\<open>equals\<close> on any node, and its loop over the two child lists in step. \<open>fe\<close> is \<^verbatim>\<open>equals\<close>
  of a node of another class. The \<^verbatim>\<open>dynamic_cast\<close> succeeds on a call node only. The loop
  runs after the two counts were found equal, so it never meets a second list that is
  shorter than the first; the model answers \<open>False\<close> there.
\<close>

text \<open>
  Modelled from the spec: \<^verbatim>\<open>get_num_children\<close> of the base class, which the spec calls the
  child count.
\<close>

definition get_num_children :: "'f VExpr list \<Rightarrow> nat" where
  "get_num_children cs = length cs"

fun equals :: "(foreign_expr \<Rightarrow> 'f VExpr \<Rightarrow> bool) \<Rightarrow> 'f VExpr \<Rightarrow> 'f VExpr \<Rightarrow> bool"
  and equals_children ::
    "(foreign_expr \<Rightarrow> 'f VExpr \<Rightarrow> bool) \<Rightarrow> 'f VExpr list \<Rightarrow> 'f VExpr list \<Rightarrow> bool"
where
  "equals fe (VectorizedFnCall n cs) other =
     (case other of
        OtherExpr e \<Rightarrow> False
      | VectorizedFnCall n' cs' \<Rightarrow>
          if m_function_name n \<noteq> m_function_name n' then False
          else if get_num_children cs \<noteq> get_num_children cs' then False
          else equals_children fe cs cs')"
| "equals fe (OtherExpr e) other = fe e other"
| "equals_children fe [] ds = True"
| "equals_children fe (c # cs) ds =
     (case ds of
        [] \<Rightarrow> False
      | d # ds' \<Rightarrow> if \<not> equals fe c d then False else equals_children fe cs ds')"

text \<open>
  The file counts children in a \<^verbatim>\<open>uint16_t\<close> (line 294) and in an \<^verbatim>\<open>int\<close> (line 189); the
  model counts in \<open>nat\<close>. The two agree on the trees in which every call node has fewer
  than 65536 children, and the theorems about the loops are stated for those.
\<close>

fun children_fit :: "'f VExpr \<Rightarrow> bool"
  and children_fit_list :: "'f VExpr list \<Rightarrow> bool"
where
  "children_fit (VectorizedFnCall n cs) = (length cs < 65536 \<and> children_fit_list cs)"
| "children_fit (OtherExpr e) = True"
| "children_fit_list [] = True"
| "children_fit_list (c # cs) = (children_fit c \<and> children_fit_list cs)"


subsection \<open>Example nodes\<close>

text \<open>
  Concrete types, nodes and collaborators on which the theorems below are instantiated:
  an integer, a string, a boolean and an aggregate-state type, a node as the constructor
  leaves it, a prepared addition node over two slot references, and collaborators that
  succeed.
\<close>

definition ex_int_type :: DataType where
  "ex_int_type = \<lparr>get_name = ''INT'', get_family_name = ''Int32'', is_nullable = False,
     get_primitive_type = TYPE_OTHER 5, have_maximum_size_of_value = True,
     get_size_of_value_in_memory = 4, get_nested_function = ''''\<rparr>"

definition ex_string_type :: DataType where
  "ex_string_type = \<lparr>get_name = ''String'', get_family_name = ''String'', is_nullable = False,
     get_primitive_type = TYPE_OTHER 23, have_maximum_size_of_value = False,
     get_size_of_value_in_memory = 0, get_nested_function = ''''\<rparr>"

definition ex_uint8_type :: DataType where
  "ex_uint8_type = \<lparr>get_name = ''BOOL'', get_family_name = ''UInt8'', is_nullable = False,
     get_primitive_type = TYPE_OTHER 2, have_maximum_size_of_value = True,
     get_size_of_value_in_memory = 1, get_nested_function = ''''\<rparr>"

definition ex_agg_state_type :: DataType where
  "ex_agg_state_type = \<lparr>get_name = ''AggState(sum(INT))'', get_family_name = ''AggState'',
     is_nullable = False, get_primitive_type = TYPE_AGG_STATE,
     have_maximum_size_of_value = False, get_size_of_value_in_memory = 0,
     get_nested_function = ''sum''\<rparr>"

definition ex_fn :: "string \<Rightarrow> TFunctionBinaryType \<Rightarrow> bool \<Rightarrow> TFunction" where
  "ex_fn name kind udtf = \<lparr>function_name = name, binary_type = kind, is_udtf_function = udtf,
     signature = name @ ''(INT)'', dict_function = None\<rparr>"

definition new_node :: "TFunction \<Rightarrow> DataType \<Rightarrow> nat fn_call" where
  "new_node fn dt = \<lparr>m_fn = fn, m_data_type = dt, m_expr_name = [], m_function = None,
     m_function_name = [], m_prepare_finished = False, m_open_finished = False,
     m_fn_context_index = - 1, m_constant_col = None\<rparr>"

definition ex_ctx :: VExprContext where
  "ex_ctx = \<lparr>fn_contexts = []\<rparr>"

definition ex_env :: "bool \<Rightarrow> nat prepare_env" where
  "ex_env java = \<lparr>
     VExpr_prepare = (\<lambda>cs ctx. (OK, cs, ctx)),
     get_child_names = (\<lambda>cs. concat (map expr_name cs)),
     enable_java_support = java,
     FunctionRPC_create = (\<lambda>fn tmpl dt. Some 1),
     FunctionFake_UDTFImpl_build = (\<lambda>tmpl dt. Some 2),
     DataTypeUInt8 = ex_uint8_type,
     JavaFunctionCall_create = (\<lambda>fn tmpl dt. Some 3),
     FunctionAggState_create = (\<lambda>ts dt nested. Some 4),
     get_function = (\<lambda>name tmpl dt d256 ver. if name = ''add'' then Some 5 else None),
     enable_decimal256 = False,
     be_exec_version = 0,
     register_function_context = (\<lambda>cs dt ctx.
       (int (length (fn_contexts ctx)),
        ctx\<lparr>fn_contexts := fn_contexts ctx @ [\<lparr>fc_dict_function = None\<rparr>]\<rparr>))\<rparr>"

definition ex_slot :: "nat \<Rightarrow> DataType \<Rightarrow> foreign_expr" where
  "ex_slot i dt = \<lparr>f_ident = i, f_is_literal = False, f_column_ptr = None, f_data_type = dt,
     f_expr_name = ''slot''\<rparr>"

definition ex_estimate :: "foreign_expr \<Rightarrow> 64 word \<Rightarrow> 64 word" where
  "ex_estimate e rows = rows * get_size_of_value_in_memory (f_data_type e)"

definition ex_exec_env :: "nat execute_env" where
  "ex_exec_env = \<lparr>
     fast_execute = (\<lambda>n cs st rid. (False, st, rid)),
     must_in_slow_path = (\<lambda>n cs. OK),
     foreign_execute = (\<lambda>e st rid. (OK, st, int (f_ident e))),
     check_constant = (\<lambda>n cs b args. OK),
     function_execute = (\<lambda>f c idx b args result rows.
        (OK, \<lparr>the_context = c,
               the_block = b[unat result := (Some 99, snd (b ! unat result))]\<rparr>)),
     block_rows = (\<lambda>b. 3),
     check_type_and_column = (\<lambda>b. OK)\<rparr>"

definition ex_block :: Block where
  "ex_block = [(Some 10, ex_int_type, ''a''), (Some 11, ex_int_type, ''b'')]"

definition ex_state :: exec_state where
  "ex_state = \<lparr>the_context = ex_ctx, the_block = ex_block\<rparr>"

definition ex_add :: "nat fn_call" where
  "ex_add = (new_node (ex_fn ''add'' BUILTIN False) ex_int_type)
     \<lparr>m_expr_name := ''add(a, b)'', m_function := Some 5, m_function_name := ''add'',
      m_prepare_finished := True, m_open_finished := True, m_fn_context_index := 0\<rparr>"

definition ex_equals :: "foreign_expr \<Rightarrow> nat VExpr \<Rightarrow> bool" where
  "ex_equals e other = (case other of
       VectorizedFnCall n cs \<Rightarrow> False
     | OtherExpr e' \<Rightarrow> f_ident e = f_ident e')"

definition ex_args :: "nat VExpr list" where
  "ex_args = [OtherExpr (ex_slot 0 ex_int_type), OtherExpr (ex_slot 1 ex_int_type)]"

section \<open>Properties of prepare\<close>

lemma ok_iff: "ok st \<longleftrightarrow> st = OK"
  by (cases st) simp_all

lemma match_suffix_iff: "match_suffix name suf \<longleftrightarrow> suffix suf name"
  by (auto simp: match_suffix_def suffix_def) (metis append_take_drop_id)

lemma prepare_base_error:
  "\<not> m_prepare_finished n \<Longrightarrow> \<not> ok (fst (VExpr_prepare env cs ctx))
   \<Longrightarrow> prepare env n cs ctx =
       (fst (VExpr_prepare env cs ctx), n, snd (VExpr_prepare env cs ctx))"
  by (auto simp: prepare_def split: prod.splits)

lemma prepare_bind_error:
  "\<not> m_prepare_finished n \<Longrightarrow> VExpr_prepare env cs ctx = (OK, cs1, ctx1) \<Longrightarrow>
   bind_function env (m_fn n) (m_data_type n) (argument_template cs1) = Inl err
   \<Longrightarrow> prepare env n cs ctx = (err, n\<lparr>m_expr_name := display_name env n cs1\<rparr>, cs1, ctx1)"
  by (simp add: prepare_def)

lemma prepare_bind_null:
  "\<not> m_prepare_finished n \<Longrightarrow> VExpr_prepare env cs ctx = (OK, cs1, ctx1) \<Longrightarrow>
   bind_function env (m_fn n) (m_data_type n) (argument_template cs1) = Inr None
   \<Longrightarrow> prepare env n cs ctx =
     (InternalError (could_not_find env n cs1),
      n\<lparr>m_expr_name := display_name env n cs1, m_function := None\<rparr>, cs1, ctx1)"
  by (simp add: prepare_def could_not_find_def)

lemma prepare_bind_ok:
  "\<not> m_prepare_finished n \<Longrightarrow> VExpr_prepare env cs ctx = (OK, cs1, ctx1) \<Longrightarrow>
   bind_function env (m_fn n) (m_data_type n) (argument_template cs1) = Inr (Some f)
   \<Longrightarrow> fst (prepare env n cs ctx) = OK \<and> m_function (fst (snd (prepare env n cs ctx))) = Some f
     \<and> m_prepare_finished (fst (snd (prepare env n cs ctx)))
     \<and> m_data_type (fst (snd (prepare env n cs ctx))) = m_data_type n
     \<and> fst (snd (snd (prepare env n cs ctx))) = cs1"
  by (simp add: prepare_def Let_def split: prod.splits)

text \<open>
  A \<^verbatim>\<open>return\<close> from inside the dispatch fails \<^verbatim>\<open>prepare\<close> whatever the base class did, and
  leaves the node unbound and unprepared.
\<close>

lemma prepare_early_return:
  assumes "\<not> m_prepare_finished n"
    and "\<And>tmpl. bind_function env (m_fn n) (m_data_type n) tmpl = Inl err"
    and "\<not> ok err"
  shows "\<not> ok (fst (prepare env n cs ctx))"
    and "m_function (fst (snd (prepare env n cs ctx))) = m_function n"
    and "\<not> m_prepare_finished (fst (snd (prepare env n cs ctx)))"
    and "ok (fst (VExpr_prepare env cs ctx)) \<Longrightarrow> fst (prepare env n cs ctx) = err"
proof -
  obtain st cs1 ctx1 where b: "VExpr_prepare env cs ctx = (st, cs1, ctx1)"
    by (cases "VExpr_prepare env cs ctx") auto
  show "\<not> ok (fst (prepare env n cs ctx))"
    using assms b by (cases "ok st") (simp_all add: prepare_base_error prepare_bind_error ok_iff)
  show "m_function (fst (snd (prepare env n cs ctx))) = m_function n"
    using assms b by (cases "ok st") (simp_all add: prepare_base_error prepare_bind_error ok_iff)
  show "\<not> m_prepare_finished (fst (snd (prepare env n cs ctx)))"
    using assms b by (cases "ok st") (simp_all add: prepare_base_error prepare_bind_error ok_iff)
  show "fst (prepare env n cs ctx) = err" if "ok (fst (VExpr_prepare env cs ctx))"
    using assms b that by (simp add: prepare_bind_error ok_iff)
qed

lemma bind_agg_state_bad:
  assumes "binary_type fn = AGG_STATE"
    and "\<not> match_suffix (function_name fn) AGG_STATE_SUFFIX \<or> is_nullable dt \<or>
         get_primitive_type dt \<noteq> TYPE_AGG_STATE"
  shows "bind_function env fn dt tmpl =
     Inl (InternalError
       (if \<not> match_suffix (function_name fn) AGG_STATE_SUFFIX
        then ''Function '' @ signature fn @ '' is not endwith '' @ [CHR 0x27] @ ''_state'' @
             [CHR 0x27]
        else if is_nullable dt then ''State function's return type must be not nullable''
        else ''State function's return type must be agg_state but get '' @ get_family_name dt))"
  using assms by (auto simp: bind_function_def)

lemma bind_agg_state_good:
  assumes "binary_type fn = AGG_STATE"
    and "match_suffix (function_name fn) AGG_STATE_SUFFIX" and "\<not> is_nullable dt"
    and "get_primitive_type dt = TYPE_AGG_STATE"
  shows "bind_function env fn dt tmpl =
     Inr (FunctionAggState_create env (map (\<lambda>column. fst (snd column)) tmpl) dt
            (get_nested_function dt))"
  using assms by (simp add: bind_function_def)

lemma prepare_ok_base:
  assumes "\<not> m_prepare_finished n" and "ok (fst (prepare env n cs ctx))"
  shows "ok (fst (VExpr_prepare env cs ctx))"
  using assms prepare_base_error [of n env cs ctx] by (cases "ok (fst (VExpr_prepare env cs ctx))") simp_all

lemma prepare_ok_bound:
  assumes "\<not> m_prepare_finished n" and "ok (fst (prepare env n cs ctx))"
  shows "bind_function env (m_fn n) (m_data_type n)
           (argument_template (fst (snd (snd (prepare env n cs ctx))))) =
         Inr (m_function (fst (snd (prepare env n cs ctx)))) \<and>
         m_function (fst (snd (prepare env n cs ctx))) \<noteq> None"
proof -
  obtain st cs1 ctx1 where b: "VExpr_prepare env cs ctx = (st, cs1, ctx1)"
    by (cases "VExpr_prepare env cs ctx") auto
  with prepare_ok_base [OF assms] have b': "VExpr_prepare env cs ctx = (OK, cs1, ctx1)"
    by (simp add: ok_iff)
  show ?thesis
  proof (cases "bind_function env (m_fn n) (m_data_type n) (argument_template cs1)")
    case (Inl err)
    have "\<not> ok err"
    proof (cases "binary_type (m_fn n)")
    qed (use Inl in \<open>auto simp: bind_function_def Let_def split: if_splits\<close>)
    with prepare_bind_error [OF assms(1) b' Inl] assms(2) show ?thesis by simp
  next
    case (Inr f)
    show ?thesis
    proof (cases f)
      case None
      with prepare_bind_null [OF assms(1) b'] Inr assms(2) show ?thesis by simp
    next
      case (Some g)
      with prepare_bind_ok [OF assms(1) b', of g] Inr show ?thesis by simp
    qed
  qed
qed

lemma java_msg_names_flag:
  "sublist ''enable_java_support''
     (''Java UDF is not enabled, you can change be config enable_java_support to true '' @
      ''and restart be.'')"
  unfolding sublist_def
  by (rule exI [of _ "''Java UDF is not enabled, you can change be config ''"],
      rule exI [of _ "'' to true and restart be.''"]) simp

text \<open>
  C3. A state-merge node (binary type \<^verbatim>\<open>AGG_STATE\<close>) that is not yet prepared: when the
  declared return type is nullable or its primitive type is not \<^verbatim>\<open>TYPE_AGG_STATE\<close>,
  \<^verbatim>\<open>prepare\<close> fails, whatever the function name is, it leaves \<^verbatim>\<open>_function\<close> as it was, and
  when the base class's \<^verbatim>\<open>prepare\<close> succeeded the failure is an \<^verbatim>\<open>InternalError\<close> (the
  file's binding error). When \<^verbatim>\<open>prepare\<close> succeeds, the return type is the non-nullable
  aggregate-state type and the bound executable is the one \<^verbatim>\<open>FunctionAggState::create\<close>
  made from the argument types, the return type and its nested function.
\<close>

theorem prepare_agg_state_return_type:
  assumes "\<not> m_prepare_finished n" and "binary_type (m_fn n) = AGG_STATE"
  shows "(is_nullable (m_data_type n) \<or> get_primitive_type (m_data_type n) \<noteq> TYPE_AGG_STATE \<longrightarrow>
            \<not> ok (fst (prepare env n cs ctx)) \<and>
            m_function (fst (snd (prepare env n cs ctx))) = m_function n \<and>
            (ok (fst (VExpr_prepare env cs ctx)) \<longrightarrow>
               (\<exists>msg. fst (prepare env n cs ctx) = InternalError msg))) \<and>
         (ok (fst (prepare env n cs ctx)) \<longrightarrow>
            \<not> is_nullable (m_data_type n) \<and>
            get_primitive_type (m_data_type n) = TYPE_AGG_STATE \<and>
            m_function (fst (snd (prepare env n cs ctx))) \<noteq> None \<and>
            m_function (fst (snd (prepare env n cs ctx))) =
              FunctionAggState_create env
                (map (\<lambda>column. fst (snd column))
                   (argument_template (fst (snd (snd (prepare env n cs ctx))))))
                (m_data_type n) (get_nested_function (m_data_type n)))"
proof (intro conjI impI)
  assume bad: "is_nullable (m_data_type n) \<or> get_primitive_type (m_data_type n) \<noteq> TYPE_AGG_STATE"
  then have bad': "\<not> match_suffix (function_name (m_fn n)) AGG_STATE_SUFFIX \<or>
      is_nullable (m_data_type n) \<or> get_primitive_type (m_data_type n) \<noteq> TYPE_AGG_STATE"
    by blast
  note e = prepare_early_return [OF assms(1) bind_agg_state_bad [OF assms(2) bad'], simplified]
  show "\<not> ok (fst (prepare env n cs ctx))" by (rule e(1))
  show "m_function (fst (snd (prepare env n cs ctx))) = m_function n" by (rule e(2))
  show "\<exists>msg. fst (prepare env n cs ctx) = InternalError msg"
    if "ok (fst (VExpr_prepare env cs ctx))"
    using e(4) [OF that] by blast
next
  assume okp: "ok (fst (prepare env n cs ctx))"
  have good: "match_suffix (function_name (m_fn n)) AGG_STATE_SUFFIX \<and>
      \<not> is_nullable (m_data_type n) \<and> get_primitive_type (m_data_type n) = TYPE_AGG_STATE"
  proof (rule ccontr)
    assume "\<not> ?thesis"
    then have bad': "\<not> match_suffix (function_name (m_fn n)) AGG_STATE_SUFFIX \<or>
      is_nullable (m_data_type n) \<or> get_primitive_type (m_data_type n) \<noteq> TYPE_AGG_STATE"
      by blast
    from prepare_early_return(1) [OF assms(1) bind_agg_state_bad [OF assms(2) bad'], simplified]
    show False using okp by blast
  qed
  then show "\<not> is_nullable (m_data_type n)"
    and "get_primitive_type (m_data_type n) = TYPE_AGG_STATE" by simp_all
  from prepare_ok_bound [OF assms(1) okp]
  show "m_function (fst (snd (prepare env n cs ctx))) \<noteq> None" by simp
  from prepare_ok_bound [OF assms(1) okp] good assms(2)
  show "m_function (fst (snd (prepare env n cs ctx))) =
      FunctionAggState_create env
        (map (\<lambda>column. fst (snd column))
           (argument_template (fst (snd (snd (prepare env n cs ctx))))))
        (m_data_type n) (get_nested_function (m_data_type n))"
    by (simp add: bind_agg_state_good)
qed

theorem prepare_agg_state_return_type_witness:
  "\<not> ok (fst (prepare (ex_env False) (new_node (ex_fn ''sum_state'' AGG_STATE False) ex_int_type) [] ex_ctx)) \<and>
   m_function (fst (snd (prepare (ex_env False)
      (new_node (ex_fn ''sum_state'' AGG_STATE False) ex_int_type) [] ex_ctx))) = None \<and>
   (\<exists>msg. fst (prepare (ex_env False) (new_node (ex_fn ''sum_state'' AGG_STATE False) ex_int_type) [] ex_ctx)
       = InternalError msg) \<and>
   ok (fst (prepare (ex_env False) (new_node (ex_fn ''sum_state'' AGG_STATE False) ex_agg_state_type) [] ex_ctx)) \<and>
   m_function (fst (snd (prepare (ex_env False)
      (new_node (ex_fn ''sum_state'' AGG_STATE False) ex_agg_state_type) [] ex_ctx))) = Some 4"
proof -
  have ok1: "ok (fst (prepare (ex_env False)
      (new_node (ex_fn ''sum_state'' AGG_STATE False) ex_agg_state_type) [] ex_ctx))"
    by (simp add: prepare_def bind_function_def match_suffix_def AGG_STATE_SUFFIX_def
        argument_template_def ex_env_def new_node_def ex_fn_def ex_agg_state_type_def)
  show ?thesis
    using ok1
      prepare_agg_state_return_type [of "new_node (ex_fn ''sum_state'' AGG_STATE False) ex_int_type"
        "ex_env False" "[]" ex_ctx]
      prepare_agg_state_return_type [of "new_node (ex_fn ''sum_state'' AGG_STATE False) ex_agg_state_type"
        "ex_env False" "[]" ex_ctx]
    by (simp add: ex_env_def new_node_def ex_fn_def ex_int_type_def ex_agg_state_type_def)
qed

text \<open>
  C4. A state-merge node that is not yet prepared and whose function name does not end
  with \<^verbatim>\<open>_state\<close>: \<^verbatim>\<open>prepare\<close> fails whatever the return type is, binds nothing, and when the
  base class's \<^verbatim>\<open>prepare\<close> succeeded the failure is the \<^verbatim>\<open>InternalError\<close> of line 111.
\<close>

theorem prepare_agg_state_suffix:
  assumes "\<not> m_prepare_finished n" and "binary_type (m_fn n) = AGG_STATE"
    and "\<not> suffix ''_state'' (function_name (m_fn n))"
  shows "\<not> ok (fst (prepare env n cs ctx)) \<and>
         m_function (fst (snd (prepare env n cs ctx))) = m_function n \<and>
         \<not> m_prepare_finished (fst (snd (prepare env n cs ctx))) \<and>
         (ok (fst (VExpr_prepare env cs ctx)) \<longrightarrow>
            fst (prepare env n cs ctx) =
              InternalError (''Function '' @ signature (m_fn n) @ '' is not endwith '' @
                             [CHR 0x27] @ ''_state'' @ [CHR 0x27]))"
proof -
  have ns: "\<not> match_suffix (function_name (m_fn n)) AGG_STATE_SUFFIX"
    using assms(3) by (simp add: match_suffix_iff AGG_STATE_SUFFIX_def)
  then have bad': "\<not> match_suffix (function_name (m_fn n)) AGG_STATE_SUFFIX \<or>
      is_nullable (m_data_type n) \<or> get_primitive_type (m_data_type n) \<noteq> TYPE_AGG_STATE"
    by blast
  note e = prepare_early_return [OF assms(1) bind_agg_state_bad [OF assms(2) bad'], simplified]
  show ?thesis using e ns by simp
qed

theorem prepare_agg_state_suffix_witness:
  "\<not> suffix ''_state'' ''sum_merge'' \<and>
   fst (prepare (ex_env False) (new_node (ex_fn ''sum_merge'' AGG_STATE False) ex_agg_state_type) [] ex_ctx) =
     InternalError (''Function sum_merge(INT) is not endwith '' @ [CHR 0x27] @ ''_state'' @ [CHR 0x27]) \<and>
   m_function (fst (snd (prepare (ex_env False)
      (new_node (ex_fn ''sum_merge'' AGG_STATE False) ex_agg_state_type) [] ex_ctx))) = None"
proof -
  have ns: "\<not> suffix ''_state'' ''sum_merge''"
    by (simp add: match_suffix_iff [symmetric] match_suffix_def)
  show ?thesis
    using ns prepare_agg_state_suffix [of "new_node (ex_fn ''sum_merge'' AGG_STATE False) ex_agg_state_type"
        "ex_env False" "[]" ex_ctx]
    by (simp add: ex_env_def new_node_def ex_fn_def)
qed

text \<open>
  C5. A Java UDF node that is not yet prepared, with \<^verbatim>\<open>enable_java_support\<close> off:
  \<^verbatim>\<open>prepare\<close> fails, binds nothing, and when the base class's \<^verbatim>\<open>prepare\<close> succeeded the
  failure is an \<^verbatim>\<open>InternalError\<close> whose message contains the name of the setting,
  \<^verbatim>\<open>enable_java_support\<close>.
\<close>

theorem prepare_java_udf_disabled:
  assumes "\<not> m_prepare_finished n"
    and "binary_type (m_fn n) = JAVA_UDF"
    and "\<not> enable_java_support env"
  shows "\<not> ok (fst (prepare env n cs ctx)) \<and>
         m_function (fst (snd (prepare env n cs ctx))) = m_function n \<and>
         \<not> m_prepare_finished (fst (snd (prepare env n cs ctx))) \<and>
         (ok (fst (VExpr_prepare env cs ctx)) \<longrightarrow>
            (\<exists>msg. fst (prepare env n cs ctx) = InternalError msg \<and>
                   sublist ''enable_java_support'' msg))"
proof -
  let ?msg = "''Java UDF is not enabled, you can change be config enable_java_support to true '' @
      ''and restart be.''"
  have b: "\<And>tmpl. bind_function env (m_fn n) (m_data_type n) tmpl = Inl (InternalError ?msg)"
    using assms by (simp add: bind_function_def)
  have "\<not> ok (InternalError ?msg)" by simp
  note e = prepare_early_return [OF assms(1) b this]
  show ?thesis using e java_msg_names_flag by blast
qed

theorem prepare_java_udf_disabled_witness:
  "\<not> ok (fst (prepare (ex_env False) (new_node (ex_fn ''my_udf'' JAVA_UDF False) ex_int_type) [] ex_ctx)) \<and>
   m_function (fst (snd (prepare (ex_env False)
      (new_node (ex_fn ''my_udf'' JAVA_UDF False) ex_int_type) [] ex_ctx))) = None \<and>
   (\<exists>msg. fst (prepare (ex_env False) (new_node (ex_fn ''my_udf'' JAVA_UDF False) ex_int_type) [] ex_ctx)
       = InternalError msg \<and> sublist ''enable_java_support'' msg)"
  using prepare_java_udf_disabled [of "new_node (ex_fn ''my_udf'' JAVA_UDF False) ex_int_type"
    "ex_env False" "[]" ex_ctx]
  by (simp add: ex_env_def new_node_def ex_fn_def)

text \<open>
  C6. A node of a native kind (not \<^verbatim>\<open>RPC\<close>, \<^verbatim>\<open>JAVA_UDF\<close> or \<^verbatim>\<open>AGG_STATE\<close>) that is not yet
  prepared: when the lookup in the registry by name, argument template, return type and
  the two environment values finds nothing, \<^verbatim>\<open>prepare\<close> fails with the \<^verbatim>\<open>InternalError\<close> of
  line 120, whose message holds the function name, the child names and the name of the
  return type, and no executable is bound.
\<close>

theorem prepare_native_lookup_miss:
  assumes "\<not> m_prepare_finished n"
    and "binary_type (m_fn n) \<noteq> RPC" and "binary_type (m_fn n) \<noteq> JAVA_UDF"
    and "binary_type (m_fn n) \<noteq> AGG_STATE"
    and "VExpr_prepare env cs ctx = (OK, cs1, ctx1)"
    and "get_function env (function_name (m_fn n)) (argument_template cs1) (m_data_type n)
           (enable_decimal256 env) (be_exec_version env) = None"
  shows "fst (prepare env n cs ctx) =
           InternalError (''Could not find function '' @ function_name (m_fn n) @ '', arg '' @
              get_child_names env cs1 @ '' return '' @ get_name (m_data_type n) @ '' '') \<and>
         m_function (fst (snd (prepare env n cs ctx))) = None \<and>
         \<not> m_prepare_finished (fst (snd (prepare env n cs ctx)))"
proof -
  have "bind_function env (m_fn n) (m_data_type n) (argument_template cs1) = Inr None"
    using assms by (simp add: bind_function_def)
  from prepare_bind_null [OF assms(1) assms(5) this] assms(1)
  show ?thesis by (simp add: could_not_find_def)
qed

theorem prepare_native_lookup_miss_witness:
  "fst (prepare (ex_env False) (new_node (ex_fn ''no_such_fn'' BUILTIN False) ex_int_type) [] ex_ctx) =
     InternalError ''Could not find function no_such_fn, arg  return INT '' \<and>
   m_function (fst (snd (prepare (ex_env False)
      (new_node (ex_fn ''no_such_fn'' BUILTIN False) ex_int_type) [] ex_ctx))) = None"
  using prepare_native_lookup_miss [of "new_node (ex_fn ''no_such_fn'' BUILTIN False) ex_int_type"
      "ex_env False" "[]" ex_ctx "[]" ex_ctx]
  by (simp add: ex_env_def new_node_def ex_fn_def ex_int_type_def)

text \<open>
  C10. A Java UDF node that is not yet prepared, with \<^verbatim>\<open>enable_java_support\<close> on and
  \<^verbatim>\<open>is_udtf_function\<close> set: when the builder of the fake function returns an executable,
  \<^verbatim>\<open>prepare\<close> succeeds and binds it. The builder is called with \<^verbatim>\<open>DataTypeUInt8\<close>, not with
  the node's declared return type, which stays what it was: with any other declared return
  type the same executable is bound.
\<close>

theorem prepare_java_udtf_fake:
  assumes "\<not> m_prepare_finished n"
    and "binary_type (m_fn n) = JAVA_UDF" and "enable_java_support env"
    and "is_udtf_function (m_fn n)"
    and "VExpr_prepare env cs ctx = (OK, cs1, ctx1)"
    and "FunctionFake_UDTFImpl_build env (argument_template cs1) (DataTypeUInt8 env) = Some f"
  shows "fst (prepare env n cs ctx) = OK \<and>
         m_function (fst (snd (prepare env n cs ctx))) =
           FunctionFake_UDTFImpl_build env (argument_template cs1) (DataTypeUInt8 env) \<and>
         m_data_type (fst (snd (prepare env n cs ctx))) = m_data_type n \<and>
         (\<forall>dt. m_function (fst (snd (prepare env (n\<lparr>m_data_type := dt\<rparr>) cs ctx))) =
                 m_function (fst (snd (prepare env n cs ctx))))"
proof -
  have b: "bind_function env (m_fn n) dt (argument_template cs1) = Inr (Some f)" for dt
    using assms by (simp add: bind_function_def)
  have "fst (prepare env n cs ctx) = OK \<and>
        m_function (fst (snd (prepare env n cs ctx))) = Some f \<and>
        m_data_type (fst (snd (prepare env n cs ctx))) = m_data_type n"
    using prepare_bind_ok [OF assms(1) assms(5) b] by simp
  moreover have "m_function (fst (snd (prepare env (n\<lparr>m_data_type := dt\<rparr>) cs ctx))) = Some f"
    for dt
    using prepare_bind_ok [of "n\<lparr>m_data_type := dt\<rparr>" env cs ctx cs1 ctx1 f] assms(1) assms(5) b
    by simp
  ultimately show ?thesis using assms(6) by simp
qed

theorem prepare_java_udtf_fake_witness:
  "fst (prepare (ex_env True) (new_node (ex_fn ''explode_udtf'' JAVA_UDF True) ex_string_type) [] ex_ctx) = OK \<and>
   m_function (fst (snd (prepare (ex_env True)
      (new_node (ex_fn ''explode_udtf'' JAVA_UDF True) ex_string_type) [] ex_ctx))) =
     FunctionFake_UDTFImpl_build (ex_env True) [] (DataTypeUInt8 (ex_env True)) \<and>
   m_data_type (fst (snd (prepare (ex_env True)
      (new_node (ex_fn ''explode_udtf'' JAVA_UDF True) ex_string_type) [] ex_ctx))) = ex_string_type \<and>
   ex_string_type \<noteq> DataTypeUInt8 (ex_env True)"
  using prepare_java_udtf_fake [of "new_node (ex_fn ''explode_udtf'' JAVA_UDF True) ex_string_type"
      "ex_env True" "[]" ex_ctx "[]" ex_ctx 2]
  by (simp add: ex_env_def new_node_def ex_fn_def ex_string_type_def ex_uint8_type_def
      argument_template_def)

section \<open>Properties of execute\<close>

lemma sint_columns:
  "length b < 2 ^ 31 \<Longrightarrow> sint (columns b) = int (length b)"
  by (simp add: columns_def signed_of_nat signed_take_bit_int_eq_self)

lemma do_execute_const:
  "is_const_and_have_executed n \<Longrightarrow>
   do_execute env n cs st rid args =
     Some (OK, st\<lparr>the_block := the_block st @ [(m_constant_col n, m_data_type n, m_expr_name n)]\<rparr>,
           sint (columns (the_block st)), args)"
  by (simp add: get_result_from_const_def)

lemma call_function_ok:
  assumes "call_function env n cs st rid args = Some (OK, st', rid', args')"
  shows "\<exists>f. m_function n = Some f \<and>
           function_execute env f (the_context st) (m_fn_context_index n)
             (the_block st @ [(None, m_data_type n, m_expr_name n)]) args
             (columns (the_block st))
             (block_rows env (the_block st @ [(None, m_data_type n, m_expr_name n)])) = (OK, st') \<and>
           rid' = sint (columns (the_block st)) \<and> args' = args"
  using assms
  by (auto simp: call_function_def Let_def ok_iff split: option.splits prod.splits if_splits)

lemma call_function_args:
  "call_function env n cs st rid args = Some (s, st', rid', args') \<Longrightarrow> args' = args"
  by (auto simp: call_function_def Let_def split: option.splits prod.splits if_splits)

lemma do_execute_general:
  assumes "\<not> is_const_and_have_executed n"
    and "\<not> fst (fast_execute env n cs st rid)"
    and "do_execute env n cs st rid args = Some (OK, st', rid', args')"
  shows "\<exists>st2. execute_children env cs 0 (fst (snd (fast_execute env n cs st rid)))
                 (resize (length cs) args) = Some (OK, st2, args') \<and>
               call_function env n cs st2 (snd (snd (fast_execute env n cs st rid))) args' =
                 Some (OK, st', rid', args')"
  using assms
  by (auto simp: Let_def ok_iff split: option.splits prod.splits if_splits
      dest: call_function_args)

text \<open>
  C2. A node that is constant and was evaluated during open: every call of \<^verbatim>\<open>execute\<close>
  (and of \<^verbatim>\<open>execute_runtime_filter\<close>) succeeds with the block extended by exactly one column,
  the cached constant column, and nothing else changed. The result is the same for all
  collaborators and all children, so no child's \<^verbatim>\<open>execute\<close> and no bound function takes
  part in it, and the block gains no argument column. A repeated call, on any state,
  appends the same cached column again.
\<close>

theorem execute_constant_short_circuit:
  assumes "is_const_and_have_executed n"
  shows "execute env (VectorizedFnCall n cs) st rid =
           Some (OK, st\<lparr>the_block := the_block st @
                          [(m_constant_col n, m_data_type n, m_expr_name n)]\<rparr>,
                 sint (columns (the_block st))) \<and>
         execute_runtime_filter env n cs st rid args =
           Some (OK, st\<lparr>the_block := the_block st @
                          [(m_constant_col n, m_data_type n, m_expr_name n)]\<rparr>,
                 sint (columns (the_block st)), args) \<and>
         execute env' (VectorizedFnCall n cs') st rid = execute env (VectorizedFnCall n cs) st rid \<and>
         m_constant_col n \<noteq> None \<and>
         (\<forall>st2 rid2. \<exists>st3 rid3.
            execute env (VectorizedFnCall n cs) st2 rid2 = Some (OK, st3, rid3) \<and>
            length (the_block st3) = Suc (length (the_block st2)) \<and>
            take (length (the_block st2)) (the_block st3) = the_block st2 \<and>
            fst (last (the_block st3)) = m_constant_col n \<and>
            the_context st3 = the_context st2)"
  using assms
  by (simp add: get_result_from_const_def execute_runtime_filter_def
      is_const_and_have_executed_def)

theorem execute_constant_short_circuit_witness:
  "is_const_and_have_executed (ex_add\<lparr>m_constant_col := Some 7\<rparr>) \<and>
   execute ex_exec_env
     (VectorizedFnCall (ex_add\<lparr>m_constant_col := Some 7\<rparr>)
        [OtherExpr (ex_slot 0 ex_int_type), OtherExpr (ex_slot 1 ex_int_type)]) ex_state (- 1) =
     Some (OK, \<lparr>the_context = ex_ctx,
                the_block = ex_block @ [(Some 7, ex_int_type, ''add(a, b)'')]\<rparr>, 2)"
  using execute_constant_short_circuit [of "ex_add\<lparr>m_constant_col := Some 7\<rparr>" ex_exec_env
      "[OtherExpr (ex_slot 0 ex_int_type), OtherExpr (ex_slot 1 ex_int_type)]" ex_state "- 1"]
  by (simp add: is_const_and_have_executed_def ex_add_def ex_state_def ex_block_def columns_def
      new_node_def)

text \<open>
  C1. A successful call of \<^verbatim>\<open>execute\<close> on a node that is not constant-and-evaluated and
  does not take the fast path: the children ran and left a block \<open>the_block st2\<close>; the
  bound function was called on that block with one column appended, which has no data
  (\<open>None\<close>), the node's return type and the node's name; the state the function left is the
  state returned; and the result index is the number of columns of \<open>the_block st2\<close>, the
  block before the result column was appended. The index is an \<^verbatim>\<open>int\<close> read from a
  \<^verbatim>\<open>uint32_t\<close>, so it is that number for blocks of fewer than \<open>2 ^ 31\<close> columns.
\<close>

theorem execute_general_path:
  assumes "children_fit (VectorizedFnCall n cs)"
    and "\<not> is_const_and_have_executed n"
    and "\<not> fst (fast_execute env n cs st rid)"
    and "execute env (VectorizedFnCall n cs) st rid = Some (OK, st', rid')"
  shows "\<exists>st2 args f.
           execute_children env cs 0 (fst (snd (fast_execute env n cs st rid)))
             (resize (length cs) []) = Some (OK, st2, args) \<and>
           m_function n = Some f \<and>
           function_execute env f (the_context st2) (m_fn_context_index n)
             (the_block st2 @ [(None, m_data_type n, m_expr_name n)]) args
             (columns (the_block st2))
             (block_rows env (the_block st2 @ [(None, m_data_type n, m_expr_name n)])) = (OK, st') \<and>
           rid' = sint (columns (the_block st2)) \<and>
           (length (the_block st2) < 2 ^ 31 \<longrightarrow>
              rid' = int (length (the_block st2)) \<and>
              (the_block st2 @ [(None, m_data_type n, m_expr_name n)]) ! nat rid' =
                (None, m_data_type n, m_expr_name n))"
proof -
  from assms(4) obtain args' where
    d: "do_execute env n cs st rid [] = Some (OK, st', rid', args')"
    by (auto split: option.splits)
  from do_execute_general [OF assms(2) assms(3) d] obtain st2 where
    c: "execute_children env cs 0 (fst (snd (fast_execute env n cs st rid)))
          (resize (length cs) []) = Some (OK, st2, args')"
    and f: "call_function env n cs st2 (snd (snd (fast_execute env n cs st rid))) args' =
          Some (OK, st', rid', args')"
    by blast
  from call_function_ok [OF f] obtain g where
    g: "m_function n = Some g"
       "function_execute env g (the_context st2) (m_fn_context_index n)
             (the_block st2 @ [(None, m_data_type n, m_expr_name n)]) args'
             (columns (the_block st2))
             (block_rows env (the_block st2 @ [(None, m_data_type n, m_expr_name n)])) = (OK, st')"
       "rid' = sint (columns (the_block st2))"
    by blast
  have "rid' = int (length (the_block st2)) \<and>
        (the_block st2 @ [(None, m_data_type n, m_expr_name n)]) ! nat rid' =
          (None, m_data_type n, m_expr_name n)"
    if "length (the_block st2) < 2 ^ 31"
    using that g(3) by (simp add: sint_columns)
  with c g show ?thesis by blast
qed

theorem execute_general_path_witness:
  "children_fit (VectorizedFnCall ex_add
      [OtherExpr (ex_slot 0 ex_int_type), OtherExpr (ex_slot 1 ex_int_type)]) \<and>
   \<not> is_const_and_have_executed ex_add \<and>
   execute ex_exec_env
     (VectorizedFnCall ex_add [OtherExpr (ex_slot 0 ex_int_type), OtherExpr (ex_slot 1 ex_int_type)])
     ex_state (- 1) =
     Some (OK, \<lparr>the_context = ex_ctx,
                the_block = ex_block @ [(Some 99, ex_int_type, ''add(a, b)'')]\<rparr>, 2) \<and>
   int (length ex_block) = 2"
proof -
  have e: "execute ex_exec_env
     (VectorizedFnCall ex_add [OtherExpr (ex_slot 0 ex_int_type), OtherExpr (ex_slot 1 ex_int_type)])
     ex_state (- 1) =
     Some (OK, \<lparr>the_context = ex_ctx,
                the_block = ex_block @ [(Some 99, ex_int_type, ''add(a, b)'')]\<rparr>, 2)"
    by (simp add: is_const_and_have_executed_def ex_add_def ex_state_def ex_block_def columns_def
        ex_exec_env_def ex_slot_def call_function_def resize_def new_node_def)
  show ?thesis
    using e execute_general_path [of ex_add
        "[OtherExpr (ex_slot 0 ex_int_type), OtherExpr (ex_slot 1 ex_int_type)]" ex_exec_env
        ex_state "- 1" "\<lparr>the_context = ex_ctx,
                the_block = ex_block @ [(Some 99, ex_int_type, ''add(a, b)'')]\<rparr>" 2]
    by (simp add: is_const_and_have_executed_def ex_add_def ex_block_def ex_exec_env_def
        new_node_def)
qed

section \<open>Properties of estimate_memory\<close>

lemma estimate_children_sum:
  "estimate_children fe cs rows acc = acc + sum_list (map (\<lambda>c. estimate_memory fe c rows) cs)"
  by (induction cs arbitrary: acc) (simp_all add: add.assoc)

lemma estimate_memory_node:
  "\<not> is_const_and_have_executed n \<Longrightarrow>
   estimate_memory fe (VectorizedFnCall n cs) rows =
     sum_list (map (\<lambda>c. estimate_memory fe c rows) cs) +
     rows * (if have_maximum_size_of_value (m_data_type n)
             then get_size_of_value_in_memory (m_data_type n) else 512)"
  by (simp add: estimate_children_sum)

lemma unat_sum_list_le:
  "unat (sum_list (ws :: 64 word list)) \<le> sum_list (map unat ws)"
proof (induction ws)
  case Nil
  then show ?case by simp
next
  case (Cons w ws)
  have "unat (w + sum_list ws) \<le> unat w + unat (sum_list ws)"
    by (simp add: unat_word_ariths)
  with Cons show ?case by simp
qed

lemma unat_sum_list_eq:
  "sum_list (map unat (ws :: 64 word list)) < 2 ^ 64 \<Longrightarrow>
   unat (sum_list ws) = sum_list (map unat ws)"
proof (induction ws)
  case Nil
  then show ?case by simp
next
  case (Cons w ws)
  then have "unat (sum_list ws) = sum_list (map unat ws)" by simp
  moreover have "unat (w + sum_list ws) = (unat w + unat (sum_list ws)) mod 2 ^ 64"
    by (simp add: unat_word_ariths)
  ultimately show ?case using Cons.prems by simp
qed

lemma unat_mult_le: "unat ((a :: 64 word) * b) \<le> unat a * unat b"
  by (simp add: unat_word_ariths)

lemma unat_plus_le: "unat ((a :: 64 word) + b) \<le> unat a + unat b"
  by (simp add: unat_word_ariths)

lemma unat_total_eq:
  assumes "sum_list (map unat (ws :: 64 word list)) + unat (r :: 64 word) * unat (k :: 64 word) < 2 ^ 64"
  shows "unat (sum_list ws + r * k) = sum_list (map unat ws) + unat r * unat k"
proof -
  have 1: "unat (sum_list ws) = sum_list (map unat ws)"
    using assms by (intro unat_sum_list_eq) simp
  have 2: "unat (r * k) = unat r * unat k"
    using assms by (simp add: unat_word_ariths)
  show ?thesis using assms 1 2 by (simp add: unat_word_ariths)
qed

lemma unat_total_le:
  "unat (sum_list (ws :: 64 word list) + r * k) \<le> sum_list (map unat ws) + unat r * unat k"
  using unat_plus_le [of "sum_list ws" "r * k"] unat_sum_list_le [of ws] unat_mult_le [of r k]
  by linarith

lemma sum_list_map_mono:
  "(\<And>c. c \<in> set cs \<Longrightarrow> f c \<le> (g c :: nat)) \<Longrightarrow> sum_list (map f cs) \<le> sum_list (map g cs)"
  by (induction cs) (simp_all add: add_mono)

lemma sum_list_zero:
  "(\<And>c. c \<in> set cs \<Longrightarrow> f c = (0 :: 64 word)) \<Longrightarrow> sum_list (map f cs) = 0"
  by (induction cs) simp_all

lemma estimate_memory_mono:
  assumes nc: "\<not> is_const_and_have_executed n"
    and r: "r1 \<le> r2"
    and ch: "\<And>c. c \<in> set cs \<Longrightarrow> estimate_memory fe c r1 \<le> estimate_memory fe c r2"
    and fit: "sum_list (map (\<lambda>c. unat (estimate_memory fe c r2)) cs) +
              unat r2 * unat (if have_maximum_size_of_value (m_data_type n)
                              then get_size_of_value_in_memory (m_data_type n) else 512) < 2 ^ 64"
  shows "estimate_memory fe (VectorizedFnCall n cs) r1 \<le> estimate_memory fe (VectorizedFnCall n cs) r2"
proof -
  let ?k = "if have_maximum_size_of_value (m_data_type n)
            then get_size_of_value_in_memory (m_data_type n) else 512"
  let ?ws = "\<lambda>r. map (\<lambda>c. estimate_memory fe c r) cs"
  have m: "map unat (?ws r) = map (\<lambda>c. unat (estimate_memory fe c r)) cs" for r
    by simp
  have "unat (sum_list (?ws r1) + r1 * ?k) \<le> sum_list (map unat (?ws r1)) + unat r1 * unat ?k"
    by (rule unat_total_le)
  also have "\<dots> \<le> sum_list (map unat (?ws r2)) + unat r2 * unat ?k"
  proof (rule add_mono)
    show "sum_list (map unat (?ws r1)) \<le> sum_list (map unat (?ws r2))"
      unfolding m using ch by (intro sum_list_map_mono) (simp add: word_le_nat_alt)
    show "unat r1 * unat ?k \<le> unat r2 * unat ?k"
      using r by (intro mult_le_mono1) (simp add: word_le_nat_alt)
  qed
  also have "\<dots> = unat (sum_list (?ws r2) + r2 * ?k)"
    using fit unfolding m [symmetric] by (rule unat_total_eq [symmetric])
  finally have le: "unat (sum_list (?ws r1) + r1 * ?k) \<le> unat (sum_list (?ws r2) + r2 * ?k)" .
  have e: "estimate_memory fe (VectorizedFnCall n cs) r = sum_list (?ws r) + r * ?k" for r
    using nc by (rule estimate_memory_node)
  show ?thesis
    unfolding e word_le_nat_alt by (rule le)
qed

text \<open>
  C7, as stated, fails: the estimate is computed in \<^verbatim>\<open>size_t\<close>, and \<open>rows * 512\<close> wraps
  around. A node without children whose return type has no maximum value size estimates
  512 bytes for one row and 0 bytes for \<open>2 ^ 55\<close> rows.
\<close>

theorem estimate_memory_not_monotone:
  "(1 :: 64 word) \<le> 36028797018963968 \<and>
   \<not> is_const_and_have_executed (new_node (ex_fn ''concat'' BUILTIN False) ex_string_type) \<and>
   estimate_memory ex_estimate
     (VectorizedFnCall (new_node (ex_fn ''concat'' BUILTIN False) ex_string_type) []) 1 = 512 \<and>
   estimate_memory ex_estimate
     (VectorizedFnCall (new_node (ex_fn ''concat'' BUILTIN False) ex_string_type) [])
     36028797018963968 = 0 \<and>
   \<not> estimate_memory ex_estimate
       (VectorizedFnCall (new_node (ex_fn ''concat'' BUILTIN False) ex_string_type) []) 1
     \<le> estimate_memory ex_estimate
       (VectorizedFnCall (new_node (ex_fn ''concat'' BUILTIN False) ex_string_type) [])
       36028797018963968"
  by (simp add: is_const_and_have_executed_def new_node_def ex_string_type_def)

text \<open>
  C7, amended. \<^verbatim>\<open>estimate_memory\<close> is 0 for a node that is constant and evaluated.
  Otherwise it is the sum of the children's estimates plus the row count times the return
  type's value size, or times 512 when the type has no maximum value size, all in 64-bit
  unsigned arithmetic. So it is 0 at 0 rows when the children's estimates are. It is
  monotone from \<open>r1\<close> to \<open>r2\<close> when each child's estimate is and the exact sum at \<open>r2\<close> (the
  children's estimates plus \<open>r2\<close> times the per-row size, as natural numbers) is below
  \<open>2 ^ 64\<close>.
\<close>

theorem estimate_memory_wrapping:
  "(is_const_and_have_executed n \<longrightarrow> estimate_memory fe (VectorizedFnCall n cs) rows = 0) \<and>
   (\<not> is_const_and_have_executed n \<longrightarrow>
      estimate_memory fe (VectorizedFnCall n cs) rows =
        sum_list (map (\<lambda>c. estimate_memory fe c rows) cs) +
        rows * (if have_maximum_size_of_value (m_data_type n)
                then get_size_of_value_in_memory (m_data_type n) else 512)) \<and>
   (\<not> is_const_and_have_executed n \<and> (\<forall>c \<in> set cs. estimate_memory fe c 0 = 0) \<longrightarrow>
      estimate_memory fe (VectorizedFnCall n cs) 0 = 0) \<and>
   (r1 \<le> r2 \<and> (\<forall>c \<in> set cs. estimate_memory fe c r1 \<le> estimate_memory fe c r2) \<and>
    sum_list (map (\<lambda>c. unat (estimate_memory fe c r2)) cs) +
      unat r2 * unat (if have_maximum_size_of_value (m_data_type n)
                      then get_size_of_value_in_memory (m_data_type n) else 512) < 2 ^ 64 \<longrightarrow>
    estimate_memory fe (VectorizedFnCall n cs) r1 \<le> estimate_memory fe (VectorizedFnCall n cs) r2)"
proof (intro conjI impI)
  show "estimate_memory fe (VectorizedFnCall n cs) rows = 0" if "is_const_and_have_executed n"
    using that by simp
  show "estimate_memory fe (VectorizedFnCall n cs) rows =
        sum_list (map (\<lambda>c. estimate_memory fe c rows) cs) +
        rows * (if have_maximum_size_of_value (m_data_type n)
                then get_size_of_value_in_memory (m_data_type n) else 512)"
    if "\<not> is_const_and_have_executed n"
    using that by (rule estimate_memory_node)
  show "estimate_memory fe (VectorizedFnCall n cs) 0 = 0"
    if h: "\<not> is_const_and_have_executed n \<and> (\<forall>c \<in> set cs. estimate_memory fe c 0 = 0)"
  proof -
    have z: "sum_list (map (\<lambda>c. estimate_memory fe c 0) cs) = 0"
      using h by (intro sum_list_zero) simp
    from h have "\<not> is_const_and_have_executed n" by simp
    from estimate_memory_node [OF this, of fe cs 0] z show ?thesis by simp
  qed
  show "estimate_memory fe (VectorizedFnCall n cs) r1 \<le> estimate_memory fe (VectorizedFnCall n cs) r2"
    if h: "r1 \<le> r2 \<and> (\<forall>c \<in> set cs. estimate_memory fe c r1 \<le> estimate_memory fe c r2) \<and>
      sum_list (map (\<lambda>c. unat (estimate_memory fe c r2)) cs) +
      unat r2 * unat (if have_maximum_size_of_value (m_data_type n)
                      then get_size_of_value_in_memory (m_data_type n) else 512) < 2 ^ 64"
  proof (cases "is_const_and_have_executed n")
    case True
    then show ?thesis by simp
  next
    case False
    from h show ?thesis by (intro estimate_memory_mono [OF False]) simp_all
  qed
qed

theorem estimate_memory_wrapping_witness:
  "estimate_memory ex_estimate
     (VectorizedFnCall ((new_node (ex_fn ''add'' BUILTIN False) ex_int_type)\<lparr>m_constant_col := Some 7\<rparr>)
        [OtherExpr (ex_slot 0 ex_int_type), OtherExpr (ex_slot 1 ex_int_type)]) 3 = 0 \<and>
   estimate_memory ex_estimate
     (VectorizedFnCall (new_node (ex_fn ''add'' BUILTIN False) ex_int_type)
        [OtherExpr (ex_slot 0 ex_int_type), OtherExpr (ex_slot 1 ex_int_type)]) 0 = 0 \<and>
   estimate_memory ex_estimate
     (VectorizedFnCall (new_node (ex_fn ''add'' BUILTIN False) ex_int_type)
        [OtherExpr (ex_slot 0 ex_int_type), OtherExpr (ex_slot 1 ex_int_type)]) 3 = 36 \<and>
   estimate_memory ex_estimate
     (VectorizedFnCall (new_node (ex_fn ''add'' BUILTIN False) ex_int_type)
        [OtherExpr (ex_slot 0 ex_int_type), OtherExpr (ex_slot 1 ex_int_type)]) 3
   \<le> estimate_memory ex_estimate
     (VectorizedFnCall (new_node (ex_fn ''add'' BUILTIN False) ex_int_type)
        [OtherExpr (ex_slot 0 ex_int_type), OtherExpr (ex_slot 1 ex_int_type)]) 4096"
  using
    estimate_memory_wrapping [of "(new_node (ex_fn ''add'' BUILTIN False) ex_int_type)\<lparr>m_constant_col := Some 7\<rparr>"
      ex_estimate "[OtherExpr (ex_slot 0 ex_int_type), OtherExpr (ex_slot 1 ex_int_type)]" 3 3 3]
    estimate_memory_wrapping [of "new_node (ex_fn ''add'' BUILTIN False) ex_int_type"
      ex_estimate "[OtherExpr (ex_slot 0 ex_int_type), OtherExpr (ex_slot 1 ex_int_type)]" 3 3 4096]
  by (simp add: is_const_and_have_executed_def new_node_def ex_int_type_def ex_slot_def
      ex_estimate_def)

section \<open>Properties of equals\<close>

lemma equals_children_iff:
  "length cs = length ds \<Longrightarrow>
   equals_children fe cs ds \<longleftrightarrow> list_all2 (equals fe) cs ds"
proof (induction cs arbitrary: ds)
  case Nil
  then show ?case by simp
next
  case (Cons c cs)
  then obtain d ds' where "ds = d # ds'" by (cases ds) auto
  with Cons show ?case by simp
qed

lemma equals_call_iff:
  "equals fe (VectorizedFnCall n cs) (VectorizedFnCall n' cs') \<longleftrightarrow>
     m_function_name n = m_function_name n' \<and> length cs = length cs' \<and>
     (\<forall>i<length cs. equals fe (cs ! i) (cs' ! i))"
  by (auto simp: get_num_children_def equals_children_iff list_all2_conv_all_nth)

lemma equals_foreign: "\<not> equals fe (VectorizedFnCall n cs) (OtherExpr e)"
  by simp

lemma equals_refl:
  assumes "\<And>e. fe e (OtherExpr e)"
  shows "equals fe x x"
proof (induction x)
  case (VectorizedFnCall n cs)
  then show ?case unfolding equals_call_iff by simp
next
  case (OtherExpr e)
  then show ?case using assms by simp
qed

text \<open>
  C8. For call nodes whose child counts fit the file's counters: \<^verbatim>\<open>equals\<close> is true of two
  call nodes exactly when their \<^verbatim>\<open>_function_name\<close> members are equal, they have the same
  number of children, and the children are pairwise equal in order; it is false of a node
  of another class. It is reflexive when \<^verbatim>\<open>equals\<close> of the other classes is. Another
  function name, another number of children, or a child replaced by one that is not equal
  to it make it false.
\<close>

theorem equals_structural:
  assumes "children_fit (VectorizedFnCall n cs)"
    and "children_fit (VectorizedFnCall n' cs')" and "children_fit c'"
  shows "(equals fe (VectorizedFnCall n cs) (VectorizedFnCall n' cs') \<longleftrightarrow>
            m_function_name n = m_function_name n' \<and> length cs = length cs' \<and>
            (\<forall>i<length cs. equals fe (cs ! i) (cs' ! i))) \<and>
         \<not> equals fe (VectorizedFnCall n cs) (OtherExpr e) \<and>
         ((\<forall>e. fe e (OtherExpr e)) \<longrightarrow>
            equals fe (VectorizedFnCall n cs) (VectorizedFnCall n cs)) \<and>
         (m_function_name n' \<noteq> m_function_name n \<longrightarrow>
            \<not> equals fe (VectorizedFnCall n cs) (VectorizedFnCall n' cs)) \<and>
         (length cs' \<noteq> length cs \<longrightarrow>
            \<not> equals fe (VectorizedFnCall n cs) (VectorizedFnCall n cs')) \<and>
         (i < length cs \<and> \<not> equals fe (cs ! i) c' \<longrightarrow>
            \<not> equals fe (VectorizedFnCall n cs) (VectorizedFnCall n (cs[i := c'])))"
proof (intro conjI impI)
  show "equals fe (VectorizedFnCall n cs) (VectorizedFnCall n' cs') \<longleftrightarrow>
            m_function_name n = m_function_name n' \<and> length cs = length cs' \<and>
            (\<forall>i<length cs. equals fe (cs ! i) (cs' ! i))"
    by (rule equals_call_iff)
  show "\<not> equals fe (VectorizedFnCall n cs) (OtherExpr e)"
    by (rule equals_foreign)
  show "equals fe (VectorizedFnCall n cs) (VectorizedFnCall n cs)" if "\<forall>e. fe e (OtherExpr e)"
    using that by (intro equals_refl) simp
  show "\<not> equals fe (VectorizedFnCall n cs) (VectorizedFnCall n' cs)"
    if "m_function_name n' \<noteq> m_function_name n"
    using that unfolding equals_call_iff by simp
  show "\<not> equals fe (VectorizedFnCall n cs) (VectorizedFnCall n cs')"
    if "length cs' \<noteq> length cs"
    using that unfolding equals_call_iff by simp
  show "\<not> equals fe (VectorizedFnCall n cs) (VectorizedFnCall n (cs[i := c']))"
    if h: "i < length cs \<and> \<not> equals fe (cs ! i) c'"
  proof
    assume "equals fe (VectorizedFnCall n cs) (VectorizedFnCall n (cs[i := c']))"
    then have "\<forall>j<length cs. equals fe (cs ! j) (cs[i := c'] ! j)"
      unfolding equals_call_iff by simp
    with h have "equals fe (cs ! i) (cs[i := c'] ! i)" by blast
    with h show False by simp
  qed
qed

theorem equals_structural_witness:
  "children_fit (VectorizedFnCall ex_add ex_args) \<and>
   (\<forall>e. ex_equals e (OtherExpr e)) \<and>
   equals ex_equals (VectorizedFnCall ex_add ex_args) (VectorizedFnCall ex_add ex_args) \<and>
   \<not> equals ex_equals (VectorizedFnCall ex_add ex_args) (OtherExpr (ex_slot 0 ex_int_type)) \<and>
   \<not> equals ex_equals (VectorizedFnCall ex_add ex_args)
       (VectorizedFnCall (ex_add\<lparr>m_function_name := ''sub''\<rparr>) ex_args) \<and>
   \<not> equals ex_equals (VectorizedFnCall ex_add ex_args)
       (VectorizedFnCall ex_add [OtherExpr (ex_slot 0 ex_int_type)]) \<and>
   \<not> equals ex_equals (VectorizedFnCall ex_add ex_args)
       (VectorizedFnCall ex_add (ex_args[1 := OtherExpr (ex_slot 2 ex_int_type)]))"
  using equals_structural [of ex_add ex_args "ex_add\<lparr>m_function_name := ''sub''\<rparr>"
      "[OtherExpr (ex_slot 0 ex_int_type)]" "OtherExpr (ex_slot 2 ex_int_type)" ex_equals
      "ex_slot 0 ex_int_type" 1]
  by (simp add: ex_args_def ex_equals_def ex_slot_def ex_add_def get_num_children_def
      new_node_def)

text \<open>
  C9. Two call nodes with the same \<^verbatim>\<open>_function_name\<close>, the same number of children and
  pairwise equal children are equal, whatever their other members are: replacing the
  declared return type, the function descriptor (with its binary type) and the bound
  executable of the second node leaves them equal.
\<close>

theorem equals_ignores_return_type:
  assumes "children_fit (VectorizedFnCall n cs)" and "children_fit (VectorizedFnCall n' cs')"
    and "m_function_name n = m_function_name n'"
    and "length cs = length cs'"
    and "\<forall>i<length cs. equals fe (cs ! i) (cs' ! i)"
  shows "equals fe (VectorizedFnCall n cs) (VectorizedFnCall n' cs') \<and>
         equals fe (VectorizedFnCall n cs)
           (VectorizedFnCall (n'\<lparr>m_data_type := dt, m_fn := fn, m_function := f\<rparr>) cs')"
  using assms unfolding equals_call_iff by simp

theorem equals_ignores_return_type_witness:
  "children_fit (VectorizedFnCall ex_add ex_args) \<and>
   m_data_type ex_add \<noteq> m_data_type (ex_add\<lparr>m_data_type := ex_string_type\<rparr>) \<and>
   equals ex_equals (VectorizedFnCall ex_add ex_args)
     (VectorizedFnCall (ex_add\<lparr>m_data_type := ex_string_type\<rparr>) ex_args)"
  using equals_ignores_return_type [of ex_add ex_args "ex_add\<lparr>m_data_type := ex_string_type\<rparr>"
      ex_args ex_equals]
  by (simp add: ex_args_def ex_equals_def ex_slot_def ex_add_def get_num_children_def
      new_node_def ex_int_type_def ex_string_type_def)

end
